theory Spec2Isabelle
  imports Main
begin

section \<open>Values shared by the two page scripts\<close>

text \<open>
  The repository holds two browser scripts: the email verification page and the password
  reset page (\<^verbatim>\<open>js/reset-password.js\<close>). Both read three query parameters, talk to the
  Firebase client SDK and write the outcome into the DOM. The SDK and the markup are not
  part of the sources: the SDK is a parameter of the model (what each call returns or
  throws), and the DOM is a record of the elements the scripts look up by id.

  A JavaScript value that is a string or \<^verbatim>\<open>null\<close>/\<^verbatim>\<open>undefined\<close> is a \<open>string option\<close>.
  Characters are code units below 256.
\<close>

definition truthy :: "string option \<Rightarrow> bool" where
  "truthy v = (case v of None \<Rightarrow> False | Some s \<Rightarrow> s \<noteq> [])"

record url_parameters =
  oobCode :: "string option"
  apiKey :: "string option"
  mode :: "string option"

text \<open>The error object of a rejected or throwing SDK call; a field may be absent.\<close>

record js_error =
  code :: "string option"
  message :: "string option"

record firebase_config =
  config_apiKey :: "string option"
  authDomain :: string
  projectId :: string

datatype provider_call =
    InitializeApp firebase_config
  | Auth
  | ApplyActionCode "string option"
  | VerifyPasswordResetCode "string option"
  | ConfirmPasswordReset "string option" string

datatype console_entry =
    ConsoleError string js_error
  | ConsoleLog string

text \<open>
  The global \<^verbatim>\<open>firebase\<close> object. \<open>initializeApp\<close> gives the error thrown by the synchronous
  call, if any. \<open>auth\<close> gives the error thrown by \<^verbatim>\<open>firebase.auth()\<close>, if any, from the SDK
  calls made before it: whether \<^verbatim>\<open>firebase.auth()\<close> returns depends on whether an app has
  been initialized. \<open>applyActionCode\<close> gives the error the returned promise is rejected
  with, \<open>None\<close> when it resolves.
\<close>

record firebase =
  initializeApp :: "firebase_config \<Rightarrow> js_error option"
  auth :: "provider_call list \<Rightarrow> js_error option"
  applyActionCode :: "string option \<Rightarrow> js_error option"

text \<open>
  What both pages share: the parsed query string of \<^verbatim>\<open>window.location.search\<close> (name and
  value pairs in order), how often it has been read, the SDK calls made so far, the
  console, and the errors no handler caught.
\<close>

record browser =
  location_search :: "(string \<times> string) list"
  search_reads :: nat
  calls :: "provider_call list"
  console :: "console_entry list"
  uncaught :: "js_error list"

text \<open>\<^verbatim>\<open>URLSearchParams.get\<close> returns the first value of the name, or \<^verbatim>\<open>null\<close>.\<close>

definition getUrlParameters :: "'a browser_scheme \<Rightarrow> url_parameters \<times> 'a browser_scheme" where
  "getUrlParameters w =
     (\<lparr>oobCode = map_of (location_search w) ''oobCode'',
       apiKey = map_of (location_search w) ''apiKey'',
       mode = map_of (location_search w) ''mode''\<rparr>,
      w\<lparr>search_reads := Suc (search_reads w)\<rparr>)"

definition provider_call :: "provider_call \<Rightarrow> 'a browser_scheme \<Rightarrow> 'a browser_scheme" where
  "provider_call c w = w\<lparr>calls := calls w @ [c]\<rparr>"

definition console_write :: "console_entry \<Rightarrow> 'a browser_scheme \<Rightarrow> 'a browser_scheme" where
  "console_write e w = w\<lparr>console := console w @ [e]\<rparr>"

definition firebaseConfig :: "url_parameters \<Rightarrow> firebase_config" where
  "firebaseConfig params =
     \<lparr>config_apiKey = apiKey params,
      authDomain = ''ai-meals-9daf1.firebaseapp.com'',
      projectId = ''ai-meals-9daf1''\<rparr>"

section \<open>The email verification page\<close>

text \<open>
  The panels \<^verbatim>\<open>#loading\<close>, \<^verbatim>\<open>#success\<close> and \<^verbatim>\<open>#error\<close> by their class lists, the text of
  \<^verbatim>\<open>#error-message\<close> and \<^verbatim>\<open>#error-code\<close>, the \<^verbatim>\<open>display\<close> style of \<^verbatim>\<open>#error-details\<close>,
  \<^verbatim>\<open>window.location.href\<close>, and the timers set (alert text and delay in milliseconds).
\<close>

record verify_page = browser +
  loading_classList :: "string set"
  success_classList :: "string set"
  error_classList :: "string set"
  error_message_textContent :: string
  error_code_textContent :: string
  error_details_display :: string
  location_href :: string
  timers :: "(string \<times> nat) list"

definition showLoading :: "verify_page \<Rightarrow> verify_page" where
  "showLoading s =
     s\<lparr>loading_classList := insert ''active'' (loading_classList s),
       success_classList := success_classList s - {''active''},
       error_classList := error_classList s - {''active''}\<rparr>"

definition showSuccess :: "verify_page \<Rightarrow> verify_page" where
  "showSuccess s =
     s\<lparr>loading_classList := loading_classList s - {''active''},
       success_classList := insert ''active'' (success_classList s),
       error_classList := error_classList s - {''active''}\<rparr>"

definition showError :: "string \<Rightarrow> string option \<Rightarrow> verify_page \<Rightarrow> verify_page" where
  "showError msg errorCode s =
     (let s1 = s\<lparr>loading_classList := loading_classList s - {''active''},
                  success_classList := success_classList s - {''active''},
                  error_classList := insert ''active'' (error_classList s),
                  error_message_textContent := msg\<rparr>
      in case errorCode of
           None \<Rightarrow> s1
         | Some c \<Rightarrow>
             if c \<noteq> []
             then s1\<lparr>error_code_textContent := ''Error Code: '' @ c,
                     error_details_display := ''block''\<rparr>
             else s1)"

definition handleVerificationError :: "js_error \<Rightarrow> verify_page \<Rightarrow> verify_page" where
  "handleVerificationError error s =
     (let errorMessage = ''Verification failed. '';
          errorMessage' =
            (if code error = Some ''auth/expired-action-code''
             then errorMessage @ ''This link has expired. Please request a new verification email from the app.''
             else if code error = Some ''auth/invalid-action-code''
             then errorMessage @ ''This link is invalid or has already been used.''
             else if code error = Some ''auth/user-disabled''
             then errorMessage @ ''This account has been disabled. Please contact support.''
             else if code error = Some ''auth/user-not-found''
             then errorMessage @ ''User account not found.''
             else errorMessage @ ''Please try again or request a new verification email from the app.'')
      in showError errorMessage' (code error) s)"

text \<open>The \<^verbatim>\<open>catch\<close> block of \<^verbatim>\<open>initializeEmailVerification\<close>.\<close>

definition verification_catch :: "js_error \<Rightarrow> verify_page \<Rightarrow> verify_page" where
  "verification_catch error s =
     handleVerificationError error (console_write (ConsoleError ''Verification error:'' error) s)"

definition initializeEmailVerification :: "firebase \<Rightarrow> verify_page \<Rightarrow> verify_page" where
  "initializeEmailVerification fb s =
     (case getUrlParameters s of (params, s1) \<Rightarrow>
        if \<not> truthy (oobCode params)
        then showError ''Invalid verification link. Missing verification code.'' None s1
        else if \<not> truthy (apiKey params)
        then showError ''Invalid verification link. Missing API key.'' None s1
        else if mode params \<noteq> Some ''verifyEmail''
        then showError ''Invalid verification link. This link is not for email verification.'' None s1
        else
          let s2 = provider_call (InitializeApp (firebaseConfig params)) s1 in
          (case initializeApp fb (firebaseConfig params) of
             Some e \<Rightarrow> verification_catch e s2
           | None \<Rightarrow>
               let s3 = provider_call Auth s2 in
               (case auth fb (calls s2) of
                  Some e \<Rightarrow> verification_catch e s3
                | None \<Rightarrow>
                    let s4 = provider_call (ApplyActionCode (oobCode params)) s3 in
                    (case applyActionCode fb (oobCode params) of
                       Some e \<Rightarrow> verification_catch e s4
                     | None \<Rightarrow> showSuccess s4))))"

definition returnToApp :: "verify_page \<Rightarrow> verify_page" where
  "returnToApp s =
     s\<lparr>location_href := ''lightningmealplans://verify-email-complete'',
       timers := timers s @
         [(''If the app did not open automatically, please return to the Lightning Meal Plans app and sign in.'',
           1000)]\<rparr>"

text \<open>The \<^verbatim>\<open>DOMContentLoaded\<close> listener; \<open>None\<close> is \<^verbatim>\<open>typeof firebase === 'undefined'\<close>.\<close>

definition verify_DOMContentLoaded :: "firebase option \<Rightarrow> verify_page \<Rightarrow> verify_page" where
  "verify_DOMContentLoaded fbo s =
     (case fbo of
        None \<Rightarrow> showError ''Failed to load Firebase SDK. Please refresh the page and try again.'' None s
      | Some fb \<Rightarrow> initializeEmailVerification fb s)"

text \<open>The panels that carry the \<^verbatim>\<open>active\<close> class.\<close>

definition active_panels :: "verify_page \<Rightarrow> string list" where
  "active_panels s =
     (if ''active'' \<in> loading_classList s then [''loading''] else []) @
     (if ''active'' \<in> success_classList s then [''success''] else []) @
     (if ''active'' \<in> error_classList s then [''error''] else [])"

section \<open>The password reset page\<close>

text \<open>
  \<^verbatim>\<open>String.prototype.trim\<close> removes the white space at both ends: tab, line feed, vertical
  tab, form feed, carriage return, space and no-break space among the code units below 256.
\<close>

definition is_whitespace :: "char \<Rightarrow> bool" where
  "is_whitespace c = (c \<in> set [CHR 0x09, CHR 0x0A, CHR 0x0B, CHR 0x0C, CHR 0x0D, CHR 0x20, CHR 0xA0])"

definition trim :: "string \<Rightarrow> string" where
  "trim s = rev (dropWhile is_whitespace (rev (dropWhile is_whitespace s)))"

text \<open>\<^verbatim>\<open>Array.prototype.join\<close>.\<close>

fun join :: "string \<Rightarrow> string list \<Rightarrow> string" where
  "join sep [] = []"
| "join sep [x] = x"
| "join sep (x # y # ys) = x @ sep @ join sep (y # ys)"

record validation_result =
  isValid :: bool
  errors :: "string list"

definition validatePasswords :: "string \<Rightarrow> string \<Rightarrow> validation_result" where
  "validatePasswords newPassword confirmPassword =
     (let errors0 = [];
          errors1 = (if newPassword = [] \<or> trim newPassword = []
                     then errors0 @ [''Password cannot be empty.''] else errors0);
          errors2 = (if confirmPassword = [] \<or> trim confirmPassword = []
                     then errors1 @ [''Please confirm your password.''] else errors1);
          errors3 = (if newPassword \<noteq> [] \<and> length newPassword < 8
                     then errors2 @ [''Password must be at least 8 characters long.''] else errors2);
          errors4 = (if newPassword \<noteq> [] \<and> confirmPassword \<noteq> [] \<and> newPassword \<noteq> confirmPassword
                     then errors3 @ [''Passwords do not match. Please try again.''] else errors3)
      in \<lparr>isValid = (length errors4 = 0), errors = errors4\<rparr>)"

text \<open>
  The DOM of the reset page. \<^verbatim>\<open>#status-message\<close> and \<^verbatim>\<open>#reset-password-form\<close> may be
  absent: the script tests both for \<^verbatim>\<open>null\<close>. The form is given by the controls the script
  reaches: \<^verbatim>\<open>#new-password\<close>, \<^verbatim>\<open>#confirm-password\<close>, the first \<^verbatim>\<open>button[type="submit"]\<close>,
  and its other inputs and buttons. The script dereferences the first three without a
  test, so a form that exists has them. Scrolling the banner into view and
  \<^verbatim>\<open>event.preventDefault()\<close> change nothing of this state.
\<close>

record status_container =
  className :: "string set"
  status_textContent :: string

record control =
  input_value :: string
  defaultValue :: string
  disabled :: bool
  textContent :: string

record form =
  new_password :: control
  confirm_password :: control
  submit_button :: control
  other_controls :: "control list"

text \<open>
  \<open>submit_listener\<close>: \<^verbatim>\<open>handleFormSubmit\<close> is attached to the form. \<open>verify_pending\<close>: the
  promise of \<^verbatim>\<open>verifyPasswordResetCode\<close> has not settled. \<open>confirm_pending\<close>: one entry for
  each \<^verbatim>\<open>confirmPasswordReset\<close> promise that has not settled, holding the
  \<^verbatim>\<open>originalButtonText\<close> its handlers captured.
\<close>

record reset_page = browser +
  status_message :: "status_container option"
  reset_password_form :: "form option"
  submit_listener :: bool
  verify_pending :: bool
  confirm_pending :: "string list"

definition displayMessage :: "string \<Rightarrow> bool \<Rightarrow> reset_page \<Rightarrow> reset_page" where
  "displayMessage msg isError s =
     (case status_message s of
        None \<Rightarrow> s
      | Some statusContainer \<Rightarrow>
          s\<lparr>status_message := Some (statusContainer
              \<lparr>className := (if isError then {''alert'', ''alert-error''}
                              else {''alert'', ''alert-success''}) - {''hidden''},
               status_textContent := msg\<rparr>)\<rparr>)"

definition hideMessage :: "reset_page \<Rightarrow> reset_page" where
  "hideMessage s =
     (case status_message s of
        None \<Rightarrow> s
      | Some statusContainer \<Rightarrow>
          s\<lparr>status_message := Some (statusContainer
              \<lparr>className := insert ''hidden'' (className statusContainer)\<rparr>)\<rparr>)"

definition getFirebaseErrorMessage :: "js_error \<Rightarrow> string" where
  "getFirebaseErrorMessage error =
     (let errorCode = code error in
      if errorCode = Some ''auth/expired-action-code''
      then ''This password reset link has expired. Please request a new one.''
      else if errorCode = Some ''auth/invalid-action-code''
      then ''This password reset link is invalid or has already been used. Please request a new one.''
      else if errorCode = Some ''auth/user-disabled''
      then ''This account has been disabled. Please contact support.''
      else if errorCode = Some ''auth/user-not-found''
      then ''No account found with this email. Please check and try again.''
      else if errorCode = Some ''auth/weak-password''
      then ''Password is too weak. Please choose a stronger password.''
      else if errorCode = Some ''auth/network-request-failed''
      then ''Unable to connect. Please check your internet connection and try again.''
      else (case message error of
              None \<Rightarrow> ''An error occurred. Please try again.''
            | Some m \<Rightarrow> if m \<noteq> [] then m else ''An error occurred. Please try again.''))"

text \<open>\<^verbatim>\<open>form.querySelectorAll('input, button')\<close> with a function applied to each element.\<close>

definition forEach_input_button :: "(control \<Rightarrow> control) \<Rightarrow> form \<Rightarrow> form" where
  "forEach_input_button f frm =
     \<lparr>new_password = f (new_password frm),
      confirm_password = f (confirm_password frm),
      submit_button = f (submit_button frm),
      other_controls = map f (other_controls frm)\<rparr>"

text \<open>The \<^verbatim>\<open>catch\<close> block of \<^verbatim>\<open>initializePasswordReset\<close>.\<close>

definition initializePasswordReset_catch :: "js_error \<Rightarrow> reset_page \<Rightarrow> reset_page" where
  "initializePasswordReset_catch error s =
     (let s1 = console_write (ConsoleError ''Error verifying password reset code:'' error) s;
          s2 = displayMessage (getFirebaseErrorMessage error) True s1
      in case reset_password_form s2 of
           None \<Rightarrow> s2
         | Some frm \<Rightarrow>
             s2\<lparr>reset_password_form :=
                  Some (forEach_input_button (\<lambda>input. input\<lparr>disabled := True\<rparr>) frm)\<rparr>)"

text \<open>
  \<^verbatim>\<open>initializePasswordReset\<close> up to its \<^verbatim>\<open>await\<close>: the function returns there, and the rest
  runs when the promise settles.
\<close>

definition initializePasswordReset :: "firebase \<Rightarrow> reset_page \<Rightarrow> reset_page" where
  "initializePasswordReset fb s =
     (case getUrlParameters s of (params, s1) \<Rightarrow>
        if \<not> truthy (oobCode params)
        then displayMessage ''Invalid password reset link. Missing verification code.'' True s1
        else if \<not> truthy (apiKey params)
        then displayMessage ''Invalid password reset link. Missing API key.'' True s1
        else if mode params \<noteq> Some ''resetPassword''
        then displayMessage ''Invalid password reset link. Incorrect mode.'' True s1
        else
          let s2 = provider_call (InitializeApp (firebaseConfig params)) s1 in
          (case initializeApp fb (firebaseConfig params) of
             Some e \<Rightarrow> initializePasswordReset_catch e s2
           | None \<Rightarrow>
               let s3 = provider_call Auth s2 in
               (case auth fb (calls s2) of
                  Some e \<Rightarrow> initializePasswordReset_catch e s3
                | None \<Rightarrow>
                    (provider_call (VerifyPasswordResetCode (oobCode params)) s3)
                      \<lparr>verify_pending := True\<rparr>)))"

text \<open>
  The rest of \<^verbatim>\<open>initializePasswordReset\<close>, run when the promise of
  \<^verbatim>\<open>verifyPasswordResetCode\<close> settles: \<open>None\<close> when it resolved, the error when it was
  rejected.
\<close>

definition initializePasswordReset_resume :: "js_error option \<Rightarrow> reset_page \<Rightarrow> reset_page" where
  "initializePasswordReset_resume outcome s =
     (case outcome of
        None \<Rightarrow> console_write (ConsoleLog ''Password reset code verified successfully'') s
      | Some error \<Rightarrow> initializePasswordReset_catch error s)"

text \<open>
  \<^verbatim>\<open>handleFormSubmit\<close> up to the call of \<^verbatim>\<open>confirmPasswordReset\<close>. The event's target is the
  form the listener is attached to, so the case of no form is never run. An error thrown by
  \<^verbatim>\<open>firebase.auth()\<close> has no handler here.
\<close>

definition handleFormSubmit :: "firebase \<Rightarrow> reset_page \<Rightarrow> reset_page" where
  "handleFormSubmit fb s =
     (let s1 = hideMessage s in
      case reset_password_form s1 of
        None \<Rightarrow> s1
      | Some frm \<Rightarrow>
          let newPassword = input_value (new_password frm);
              confirmPassword = input_value (confirm_password frm)
          in (case getUrlParameters s1 of (params, s2) \<Rightarrow>
                let validation = validatePasswords newPassword confirmPassword in
                if \<not> isValid validation
                then displayMessage (join '' '' (errors validation)) True s2
                else
                  let submitButton = submit_button frm;
                      originalButtonText = textContent submitButton;
                      s3 = s2\<lparr>reset_password_form := Some (frm
                             \<lparr>submit_button := submitButton
                                \<lparr>disabled := True, textContent := ''Resetting...''\<rparr>\<rparr>)\<rparr>;
                      s4 = provider_call Auth s3
                  in (case auth fb (calls s3) of
                        Some e \<Rightarrow> s4\<lparr>uncaught := uncaught s4 @ [e]\<rparr>
                      | None \<Rightarrow>
                          (provider_call (ConfirmPasswordReset (oobCode params) newPassword) s4)
                            \<lparr>confirm_pending := confirm_pending s4 @ [originalButtonText]\<rparr>)))"

text \<open>
  \<^verbatim>\<open>form.reset()\<close> gives every input its default value back. The submit button keeps its
  state; the value of any other button plays no part in the script.
\<close>

definition form_reset :: "form \<Rightarrow> form" where
  "form_reset frm =
     frm\<lparr>new_password := (new_password frm)\<lparr>input_value := defaultValue (new_password frm)\<rparr>,
         confirm_password := (confirm_password frm)\<lparr>input_value := defaultValue (confirm_password frm)\<rparr>,
         other_controls := map (\<lambda>c. c\<lparr>input_value := defaultValue c\<rparr>) (other_controls frm)\<rparr>"

text \<open>The \<^verbatim>\<open>then\<close> handler of \<^verbatim>\<open>confirmPasswordReset\<close>.\<close>

definition confirmPasswordReset_then :: "reset_page \<Rightarrow> reset_page" where
  "confirmPasswordReset_then s =
     (let s1 = displayMessage
                 ''Password reset successful! You can now sign in with your new password.'' False s
      in case reset_password_form s1 of
           None \<Rightarrow> s1
         | Some frm \<Rightarrow>
             let frm1 = form_reset frm in
             s1\<lparr>reset_password_form := Some (frm1
                  \<lparr>submit_button := (submit_button frm1)
                     \<lparr>textContent := ''Password Reset Complete''\<rparr>\<rparr>)\<rparr>)"

text \<open>The \<^verbatim>\<open>catch\<close> handler of \<^verbatim>\<open>confirmPasswordReset\<close>, with the button text it captured.\<close>

definition confirmPasswordReset_catch :: "string \<Rightarrow> js_error \<Rightarrow> reset_page \<Rightarrow> reset_page" where
  "confirmPasswordReset_catch originalButtonText error s =
     (let s1 = console_write (ConsoleError ''Error resetting password:'' error) s;
          s2 = displayMessage (getFirebaseErrorMessage error) True s1
      in case reset_password_form s2 of
           None \<Rightarrow> s2
         | Some frm \<Rightarrow>
             s2\<lparr>reset_password_form := Some (frm
                  \<lparr>submit_button := (submit_button frm)
                     \<lparr>disabled := False, textContent := originalButtonText\<rparr>\<rparr>)\<rparr>)"

text \<open>The \<^verbatim>\<open>DOMContentLoaded\<close> listener of the reset page.\<close>

definition reset_DOMContentLoaded :: "firebase option \<Rightarrow> reset_page \<Rightarrow> reset_page" where
  "reset_DOMContentLoaded fbo s =
     (case fbo of
        None \<Rightarrow>
          displayMessage ''Failed to load Firebase SDK. Please refresh the page and try again.'' True s
      | Some fb \<Rightarrow>
          let s1 = initializePasswordReset fb s in
          (case reset_password_form s1 of
             None \<Rightarrow> s1
           | Some frm \<Rightarrow> s1\<lparr>submit_listener := True\<rparr>))"

text \<open>
  What the user does between the script's handlers: filling the two password fields (a
  disabled field cannot be edited), and a change of the query string without a reload
  (\<^verbatim>\<open>history.replaceState\<close>).
\<close>

definition user_input :: "string \<Rightarrow> string \<Rightarrow> reset_page \<Rightarrow> reset_page" where
  "user_input newPassword confirmPassword s =
     (case reset_password_form s of
        None \<Rightarrow> s
      | Some frm \<Rightarrow>
          s\<lparr>reset_password_form := Some (frm
               \<lparr>new_password :=
                  (if disabled (new_password frm) then new_password frm
                   else (new_password frm)\<lparr>input_value := newPassword\<rparr>),
                confirm_password :=
                  (if disabled (confirm_password frm) then confirm_password frm
                   else (confirm_password frm)\<lparr>input_value := confirmPassword\<rparr>)\<rparr>)\<rparr>)"

text \<open>
  The events of a page load, each running the script code attached to it: the document is
  ready; the promise of \<^verbatim>\<open>verifyPasswordResetCode\<close> settles; the user fills the password
  fields; the query string is replaced; a \<^verbatim>\<open>submit\<close> event reaches the form; the \<open>k\<close>-th
  pending promise of \<^verbatim>\<open>confirmPasswordReset\<close> settles. An event whose listener or promise
  does not exist changes nothing.
\<close>

datatype event =
    DOMContentLoaded
  | VerifySettled "js_error option"
  | UserInput string string
  | LocationReplaced "(string \<times> string) list"
  | SubmitEvent
  | ConfirmSettled nat "js_error option"

fun step :: "firebase option \<Rightarrow> event \<Rightarrow> reset_page \<Rightarrow> reset_page" where
  "step fbo DOMContentLoaded s = reset_DOMContentLoaded fbo s"
| "step fbo (VerifySettled outcome) s =
     (if verify_pending s
      then initializePasswordReset_resume outcome (s\<lparr>verify_pending := False\<rparr>)
      else s)"
| "step fbo (UserInput newPassword confirmPassword) s = user_input newPassword confirmPassword s"
| "step fbo (LocationReplaced query) s = s\<lparr>location_search := query\<rparr>"
| "step fbo SubmitEvent s =
     (case fbo of
        None \<Rightarrow> s
      | Some fb \<Rightarrow> if submit_listener s then handleFormSubmit fb s else s)"
| "step fbo (ConfirmSettled k outcome) s =
     (if k < length (confirm_pending s)
      then
        let originalButtonText = confirm_pending s ! k;
            s1 = s\<lparr>confirm_pending := take k (confirm_pending s) @ drop (Suc k) (confirm_pending s)\<rparr>
        in (case outcome of
              None \<Rightarrow> confirmPasswordReset_then s1
            | Some error \<Rightarrow> confirmPasswordReset_catch originalButtonText error s1)
      else s)"

fun run :: "firebase option \<Rightarrow> event list \<Rightarrow> reset_page \<Rightarrow> reset_page" where
  "run fbo [] s = s"
| "run fbo (ev # evs) s = run fbo evs (step fbo ev s)"





section \<open>Error codes and example pages\<close>



text \<open>
  An SDK whose \<^verbatim>\<open>initializeApp\<close> returns and whose \<^verbatim>\<open>applyActionCode\<close> resolves. Its
  \<^verbatim>\<open>auth()\<close> returns once \<^verbatim>\<open>initializeApp\<close> has been called, and throws before that: no app
  exists then.
\<close>

fun is_InitializeApp :: "provider_call \<Rightarrow> bool" where
  "is_InitializeApp (InitializeApp config) = True"
| "is_InitializeApp c = False"

definition no_app_error :: js_error where
  "no_app_error =
     \<lparr>code = Some ''app/no-app'',
      message = Some ''No Firebase App has been created - call Firebase App.initializeApp()''\<rparr>"

definition resolving_firebase :: firebase where
  "resolving_firebase =
     \<lparr>initializeApp = (\<lambda>config. None),
      auth = (\<lambda>log. if list_ex is_InitializeApp log then None else Some no_app_error),
      applyActionCode = (\<lambda>c. None)\<rparr>"

text \<open>The verification page as served, opened with a query string.\<close>

definition verify_page_loaded :: "(string \<times> string) list \<Rightarrow> verify_page" where
  "verify_page_loaded query =
     \<lparr>location_search = query, search_reads = 0, calls = [], console = [], uncaught = [],
      loading_classList = {''state'', ''active''}, success_classList = {''state''},
      error_classList = {''state''}, error_message_textContent = [],
      error_code_textContent = [], error_details_display = ''none'',
      location_href = ''https://example.invalid/verify-email.html'', timers = []\<rparr>"

definition verify_link :: "(string \<times> string) list" where
  "verify_link = [(''mode'', ''verifyEmail''), (''oobCode'', ''abc123''), (''apiKey'', ''key1'')]"

text \<open>The reset page as served: a status banner and a form of two fields and a button.\<close>

definition blank_control :: control where
  "blank_control = \<lparr>input_value = [], defaultValue = [], disabled = False, textContent = []\<rparr>"

definition reset_page_loaded :: "(string \<times> string) list \<Rightarrow> reset_page" where
  "reset_page_loaded query =
     \<lparr>location_search = query, search_reads = 0, calls = [], console = [], uncaught = [],
      status_message = Some \<lparr>className = {''alert'', ''hidden''}, status_textContent = []\<rparr>,
      reset_password_form = Some
        \<lparr>new_password = blank_control,
         confirm_password = blank_control,
         submit_button = blank_control\<lparr>textContent := ''Reset Password''\<rparr>,
         other_controls = []\<rparr>,
      submit_listener = False, verify_pending = False, confirm_pending = []\<rparr>"

definition reset_link :: "(string \<times> string) list" where
  "reset_link = [(''mode'', ''resetPassword''), (''oobCode'', ''abc123''), (''apiKey'', ''key1'')]"

definition other_link :: "(string \<times> string) list" where
  "other_link = [(''mode'', ''resetPassword''), (''oobCode'', ''xyz789''), (''apiKey'', ''key1'')]"

definition no_code_link :: "(string \<times> string) list" where
  "no_code_link = [(''mode'', ''resetPassword''), (''apiKey'', ''key1'')]"


text \<open>The form of \<open>reset_page_loaded\<close> with both fields filled.\<close>

definition filled_form :: form where
  "filled_form =
     \<lparr>new_password = blank_control\<lparr>input_value := ''goodpass1''\<rparr>,
      confirm_password = blank_control\<lparr>input_value := ''goodpass1''\<rparr>,
      submit_button = blank_control\<lparr>textContent := ''Reset Password''\<rparr>,
      other_controls = []\<rparr>"

definition expired_error :: js_error where
  "expired_error = \<lparr>code = Some ''auth/expired-action-code'', message = Some ''EXPIRED_OOB_CODE''\<rparr>"


section \<open>Properties of the verification page's panels\<close>

text \<open>
  Claim C8. Whatever classes the three panels carry before, each of \<^verbatim>\<open>showLoading\<close>,
  \<^verbatim>\<open>showSuccess\<close> and \<^verbatim>\<open>showError\<close> leaves exactly one panel with the class \<^verbatim>\<open>active\<close>
  (its own), and running the same operation a second time changes nothing.
\<close>

theorem show_state_one_active_idempotent:
  "active_panels (showLoading s) = [''loading''] \<and>
   active_panels (showSuccess s) = [''success''] \<and>
   active_panels (showError msg errorCode s) = [''error''] \<and>
   length (active_panels (showLoading s)) = 1 \<and>
   length (active_panels (showSuccess s)) = 1 \<and>
   length (active_panels (showError msg errorCode s)) = 1 \<and>
   showLoading (showLoading s) = showLoading s \<and>
   showSuccess (showSuccess s) = showSuccess s \<and>
   showError msg errorCode (showError msg errorCode s) = showError msg errorCode s"
  by (auto simp: active_panels_def showLoading_def showSuccess_def showError_def Let_def
      split: option.splits)

text \<open>
  Claim C10. \<^verbatim>\<open>showError\<close> writes the text of \<^verbatim>\<open>#error-code\<close> and shows \<^verbatim>\<open>#error-details\<close>
  only when it is given an error code (a non-empty one); without a code, or with the empty
  string, both stay as they were. So after a call with a code and a later call without one,
  the page shows the new message next to the earlier error code.
\<close>

theorem showError_code_frame:
  "error_code_textContent (showError msg None s) = error_code_textContent s \<and>
   error_details_display (showError msg None s) = error_details_display s \<and>
   error_code_textContent (showError msg (Some []) s) = error_code_textContent s \<and>
   error_details_display (showError msg (Some []) s) = error_details_display s \<and>
   error_code_textContent (showError msg (Some (c # cs)) s) = ''Error Code: '' @ c # cs \<and>
   error_details_display (showError msg (Some (c # cs)) s) = ''block'' \<and>
   error_message_textContent (showError msg' None (showError msg (Some (c # cs)) s)) = msg' \<and>
   error_code_textContent (showError msg' None (showError msg (Some (c # cs)) s)) = ''Error Code: '' @ c # cs \<and>
   error_details_display (showError msg' None (showError msg (Some (c # cs)) s)) = ''block''"
  by (simp add: showError_def Let_def)

section \<open>Error codes and messages\<close>


lemma displayMessage_form [simp]:
  "reset_password_form (displayMessage msg isError s) = reset_password_form s"
  by (simp add: displayMessage_def split: option.splits)

lemma displayMessage_calls [simp]: "calls (displayMessage msg isError s) = calls s"
  by (simp add: displayMessage_def split: option.splits)

lemma displayMessage_reads [simp]: "search_reads (displayMessage msg isError s) = search_reads s"
  by (simp add: displayMessage_def split: option.splits)









section \<open>The checks on the URL parameters\<close>







lemma displayMessage_pending [simp]:
  "verify_pending (displayMessage msg isError s) = verify_pending s"
  by (simp add: displayMessage_def split: option.splits)



section \<open>A successful verification\<close>

text \<open>
  Claim C1 as stated fails: when \<^verbatim>\<open>applyActionCode\<close> resolves the script shows the success
  panel, but nothing navigates to the custom-scheme URL and no timer is set.
  \<^verbatim>\<open>initializeEmailVerification\<close> ends with \<^verbatim>\<open>showSuccess()\<close>, and the script calls
  \<^verbatim>\<open>returnToApp\<close> nowhere.
\<close>

theorem verification_success_no_deep_link_counterexample:
  "active_panels (initializeEmailVerification resolving_firebase (verify_page_loaded verify_link)) = [''success''] \<and>
   calls (initializeEmailVerification resolving_firebase (verify_page_loaded verify_link)) =
     [InitializeApp \<lparr>config_apiKey = Some ''key1'', authDomain = ''ai-meals-9daf1.firebaseapp.com'',
                      projectId = ''ai-meals-9daf1''\<rparr>,
      Auth, ApplyActionCode (Some ''abc123'')] \<and>
   location_href (initializeEmailVerification resolving_firebase (verify_page_loaded verify_link)) =
     ''https://example.invalid/verify-email.html'' \<and>
   location_href (initializeEmailVerification resolving_firebase (verify_page_loaded verify_link)) \<noteq>
     ''lightningmealplans://verify-email-complete'' \<and>
   timers (initializeEmailVerification resolving_firebase (verify_page_loaded verify_link)) = []"
  by (simp add: initializeEmailVerification_def getUrlParameters_def showSuccess_def
      provider_call_def active_panels_def truthy_def Let_def resolving_firebase_def
      verify_page_loaded_def verify_link_def firebaseConfig_def)

lemma verification_success:
  assumes "truthy (map_of (location_search v) ''oobCode'')"
    and "truthy (map_of (location_search v) ''apiKey'')"
    and "map_of (location_search v) ''mode'' = Some ''verifyEmail''"
    and "initializeApp fb (firebaseConfig (fst (getUrlParameters v))) = None"
    and "auth fb (calls v @ [InitializeApp (firebaseConfig (fst (getUrlParameters v)))]) = None"
    and "applyActionCode fb (map_of (location_search v) ''oobCode'') = None"
  shows "active_panels (initializeEmailVerification fb v) = [''success'']"
    and "location_href (initializeEmailVerification fb v) = location_href v"
    and "timers (initializeEmailVerification fb v) = timers v"
  using assms
  by (simp_all add: initializeEmailVerification_def getUrlParameters_def showSuccess_def
      provider_call_def active_panels_def Let_def)

text \<open>
  Claim C1, amended. When the three parameters pass the checks and the SDK calls return and
  \<^verbatim>\<open>applyActionCode\<close> resolves, the script makes the success panel the one active panel and
  leaves the page location and the timers as they were: the transition to the success state
  triggers no deep-link return. The deep-link return is the separate function
  \<^verbatim>\<open>returnToApp\<close>; when something calls it, it sets the location to the custom-scheme URL
  and then schedules the fallback alert after 1000 milliseconds.
\<close>

theorem verification_success_then_returnToApp:
  assumes "truthy (map_of (location_search v) ''oobCode'')"
    and "truthy (map_of (location_search v) ''apiKey'')"
    and "map_of (location_search v) ''mode'' = Some ''verifyEmail''"
    and "initializeApp fb (firebaseConfig (fst (getUrlParameters v))) = None"
    and "auth fb (calls v @ [InitializeApp (firebaseConfig (fst (getUrlParameters v)))]) = None"
    and "applyActionCode fb (map_of (location_search v) ''oobCode'') = None"
  shows "active_panels (initializeEmailVerification fb v) = [''success''] \<and>
         location_href (initializeEmailVerification fb v) = location_href v \<and>
         timers (initializeEmailVerification fb v) = timers v \<and>
         location_href (returnToApp (initializeEmailVerification fb v)) =
           ''lightningmealplans://verify-email-complete'' \<and>
         timers (returnToApp (initializeEmailVerification fb v)) =
           timers v @
           [(''If the app did not open automatically, please return to the Lightning Meal Plans app and sign in.'',
             1000)] \<and>
         active_panels (returnToApp (initializeEmailVerification fb v)) = [''success'']"
  using verification_success[OF assms]
  by (simp add: returnToApp_def active_panels_def)

theorem verification_success_then_returnToApp_witness:
  "truthy (map_of (location_search (verify_page_loaded verify_link)) ''oobCode'') \<and>
   truthy (map_of (location_search (verify_page_loaded verify_link)) ''apiKey'') \<and>
   map_of (location_search (verify_page_loaded verify_link)) ''mode'' = Some ''verifyEmail'' \<and>
   initializeApp resolving_firebase (firebaseConfig (fst (getUrlParameters (verify_page_loaded verify_link)))) = None \<and>
   auth resolving_firebase
     (calls (verify_page_loaded verify_link) @
      [InitializeApp (firebaseConfig (fst (getUrlParameters (verify_page_loaded verify_link))))]) = None \<and>
   applyActionCode resolving_firebase (map_of (location_search (verify_page_loaded verify_link)) ''oobCode'') = None \<and>
   active_panels (initializeEmailVerification resolving_firebase (verify_page_loaded verify_link)) = [''success''] \<and>
   timers (initializeEmailVerification resolving_firebase (verify_page_loaded verify_link)) = [] \<and>
   location_href (returnToApp (initializeEmailVerification resolving_firebase (verify_page_loaded verify_link))) =
     ''lightningmealplans://verify-email-complete'' \<and>
   timers (returnToApp (initializeEmailVerification resolving_firebase (verify_page_loaded verify_link))) =
     [(''If the app did not open automatically, please return to the Lightning Meal Plans app and sign in.'',
       1000)]"
proof -
  have h1: "truthy (map_of (location_search (verify_page_loaded verify_link)) ''oobCode'')"
    and h2: "truthy (map_of (location_search (verify_page_loaded verify_link)) ''apiKey'')"
    and h3: "map_of (location_search (verify_page_loaded verify_link)) ''mode'' = Some ''verifyEmail''"
    by (simp_all add: verify_page_loaded_def verify_link_def truthy_def)
  have h4: "initializeApp resolving_firebase
              (firebaseConfig (fst (getUrlParameters (verify_page_loaded verify_link)))) = None"
    and h5: "auth resolving_firebase
               (calls (verify_page_loaded verify_link) @
                [InitializeApp (firebaseConfig (fst (getUrlParameters (verify_page_loaded verify_link))))]) = None"
    and h6: "applyActionCode resolving_firebase
               (map_of (location_search (verify_page_loaded verify_link)) ''oobCode'') = None"
    by (simp_all add: resolving_firebase_def)
  have t: "timers (verify_page_loaded verify_link) = []"
    by (simp add: verify_page_loaded_def)
  show ?thesis
    using verification_success_then_returnToApp[OF h1 h2 h3 h4 h5 h6] h1 h2 h3 h4 h5 h6 t
    by simp
qed

section \<open>Password validation\<close>






section \<open>Reading the URL parameters\<close>

lemma hideMessage_form [simp]:
  "reset_password_form (hideMessage s) = reset_password_form s"
  by (simp add: hideMessage_def split: option.splits)

lemma hideMessage_reads [simp]: "search_reads (hideMessage s) = search_reads s"
  by (simp add: hideMessage_def split: option.splits)

lemma hideMessage_search [simp]: "location_search (hideMessage s) = location_search s"
  by (simp add: hideMessage_def split: option.splits)

lemma hideMessage_calls [simp]: "calls (hideMessage s) = calls s"
  by (simp add: hideMessage_def split: option.splits)

lemma showError_reads [simp]: "search_reads (showError msg errorCode v) = search_reads v"
  by (simp add: showError_def Let_def split: option.splits)

lemma showSuccess_reads [simp]: "search_reads (showSuccess v) = search_reads v"
  by (simp add: showSuccess_def)

lemma verification_catch_reads [simp]: "search_reads (verification_catch e v) = search_reads v"
  by (simp add: verification_catch_def handleVerificationError_def console_write_def Let_def)

lemma verify_reads:
  "search_reads (initializeEmailVerification fb v) = Suc (search_reads v)"
  by (simp add: initializeEmailVerification_def getUrlParameters_def
      provider_call_def Let_def split: option.splits)

lemma reset_catch_reads [simp]:
  "search_reads (initializePasswordReset_catch e s) = search_reads s"
  by (simp add: initializePasswordReset_catch_def console_write_def Let_def split: option.splits)

lemma reset_init_reads:
  "search_reads (initializePasswordReset fb s) = Suc (search_reads s)"
  by (simp add: initializePasswordReset_def getUrlParameters_def provider_call_def Let_def
      split: option.splits)

lemma resume_reads:
  "search_reads (initializePasswordReset_resume outcome s) = search_reads s"
  by (simp add: initializePasswordReset_resume_def console_write_def split: option.splits)

lemma submit_reads:
  "search_reads (handleFormSubmit fb s) =
     (if reset_password_form s = None then search_reads s else Suc (search_reads s))"
  by (simp add: handleFormSubmit_def getUrlParameters_def provider_call_def Let_def
      split: option.splits)

lemma settle_reads:
  "search_reads (confirmPasswordReset_then s) = search_reads s"
  "search_reads (confirmPasswordReset_catch t e s) = search_reads s"
  by (simp_all add: confirmPasswordReset_then_def confirmPasswordReset_catch_def console_write_def
      Let_def split: option.splits)

lemma submit_calls:
  assumes "reset_password_form s = Some frm"
    and "isValid (validatePasswords (input_value (new_password frm)) (input_value (confirm_password frm)))"
    and "auth fb (calls s) = None"
  shows "calls (handleFormSubmit fb s) =
           calls s @ [Auth, ConfirmPasswordReset (map_of (location_search s) ''oobCode'')
                              (input_value (new_password frm))]"
  using assms
  by (simp add: handleFormSubmit_def getUrlParameters_def provider_call_def Let_def)

text \<open>
  Claim C7 as stated fails on the reset page: \<^verbatim>\<open>handleFormSubmit\<close> calls
  \<^verbatim>\<open>getUrlParameters()\<close> itself. After a load and one submission the query string has been
  read twice, and when the query string was replaced in between, \<^verbatim>\<open>confirmPasswordReset\<close>
  gets the code of the new query string (\<^verbatim>\<open>xyz789\<close>), not the one read at load time
  (\<^verbatim>\<open>abc123\<close>).
\<close>

theorem parameters_read_again_counterexample:
  "search_reads (run (Some resolving_firebase)
      [DOMContentLoaded, VerifySettled None, UserInput ''goodpass1'' ''goodpass1'', SubmitEvent]
      (reset_page_loaded reset_link)) = 2 \<and>
   calls (run (Some resolving_firebase)
      [DOMContentLoaded, VerifySettled None, UserInput ''goodpass1'' ''goodpass1'',
       LocationReplaced other_link, SubmitEvent]
      (reset_page_loaded reset_link)) =
     [InitializeApp \<lparr>config_apiKey = Some ''key1'', authDomain = ''ai-meals-9daf1.firebaseapp.com'',
                      projectId = ''ai-meals-9daf1''\<rparr>,
      Auth, VerifyPasswordResetCode (Some ''abc123''),
      Auth, ConfirmPasswordReset (Some ''xyz789'') ''goodpass1'']"
  by code_simp

text \<open>
  Claim C7, amended. Each script reads the three URL parameters from the page location once
  in its initialization function at page load. The verification page reads them nowhere
  else. On the reset page the continuation of the initialization and the two handlers of
  \<^verbatim>\<open>confirmPasswordReset\<close> do not read them, but the form-submit handler reads them again on
  every submission, and the code it passes to \<^verbatim>\<open>confirmPasswordReset\<close> is the \<^verbatim>\<open>oobCode\<close> of
  the page location at the time of the submission.
\<close>

theorem parameters_read_per_handler:
  "search_reads (initializeEmailVerification fb v) = Suc (search_reads v) \<and>
   search_reads (returnToApp v) = search_reads v \<and>
   search_reads (initializePasswordReset fb s) = Suc (search_reads s) \<and>
   search_reads (initializePasswordReset_resume outcome s) = search_reads s \<and>
   search_reads (confirmPasswordReset_then s) = search_reads s \<and>
   search_reads (confirmPasswordReset_catch originalButtonText error s) = search_reads s \<and>
   search_reads (handleFormSubmit fb s) =
     (if reset_password_form s = None then search_reads s else Suc (search_reads s)) \<and>
   (reset_password_form s = Some frm \<and>
    isValid (validatePasswords (input_value (new_password frm)) (input_value (confirm_password frm))) \<and>
    auth fb (calls s) = None \<longrightarrow>
      calls (handleFormSubmit fb s) =
        calls s @ [Auth, ConfirmPasswordReset (map_of (location_search s) ''oobCode'')
                           (input_value (new_password frm))])"
  using submit_calls[of s frm fb]
  by (simp add: verify_reads reset_init_reads resume_reads settle_reads submit_reads returnToApp_def)

theorem parameters_read_per_handler_witness:
  "reset_password_form (run (Some resolving_firebase)
      [DOMContentLoaded, VerifySettled None, UserInput ''goodpass1'' ''goodpass1'',
       LocationReplaced other_link]
      (reset_page_loaded reset_link)) = Some filled_form \<and>
   isValid (validatePasswords (input_value (new_password filled_form))
              (input_value (confirm_password filled_form))) \<and>
   auth resolving_firebase (calls (run (Some resolving_firebase)
      [DOMContentLoaded, VerifySettled None, UserInput ''goodpass1'' ''goodpass1'',
       LocationReplaced other_link]
      (reset_page_loaded reset_link))) = None \<and>
   search_reads (handleFormSubmit resolving_firebase (run (Some resolving_firebase)
      [DOMContentLoaded, VerifySettled None, UserInput ''goodpass1'' ''goodpass1'',
       LocationReplaced other_link]
      (reset_page_loaded reset_link))) = 2 \<and>
   calls (handleFormSubmit resolving_firebase (run (Some resolving_firebase)
      [DOMContentLoaded, VerifySettled None, UserInput ''goodpass1'' ''goodpass1'',
       LocationReplaced other_link]
      (reset_page_loaded reset_link))) =
     [InitializeApp \<lparr>config_apiKey = Some ''key1'', authDomain = ''ai-meals-9daf1.firebaseapp.com'',
                      projectId = ''ai-meals-9daf1''\<rparr>,
      Auth, VerifyPasswordResetCode (Some ''abc123''),
      Auth, ConfirmPasswordReset (Some ''xyz789'') ''goodpass1'']"
proof -
  define s where "s = run (Some resolving_firebase)
      [DOMContentLoaded, VerifySettled None, UserInput ''goodpass1'' ''goodpass1'',
       LocationReplaced other_link]
      (reset_page_loaded reset_link)"
  have h1: "reset_password_form s = Some filled_form"
    unfolding s_def by code_simp
  have h2: "isValid (validatePasswords (input_value (new_password filled_form))
              (input_value (confirm_password filled_form)))"
    by code_simp
  have h3: "auth resolving_firebase (calls s) = None"
    unfolding s_def by code_simp
  have c: "calls s =
             [InitializeApp \<lparr>config_apiKey = Some ''key1'',
                authDomain = ''ai-meals-9daf1.firebaseapp.com'', projectId = ''ai-meals-9daf1''\<rparr>,
              Auth, VerifyPasswordResetCode (Some ''abc123'')]"
    and r: "search_reads s = 1"
    and l: "map_of (location_search s) ''oobCode'' = Some ''xyz789''"
    and i: "input_value (new_password filled_form) = ''goodpass1''"
    unfolding s_def by code_simp+
  have "search_reads (handleFormSubmit resolving_firebase s) = 2 \<and>
        calls (handleFormSubmit resolving_firebase s) =
          [InitializeApp \<lparr>config_apiKey = Some ''key1'',
             authDomain = ''ai-meals-9daf1.firebaseapp.com'', projectId = ''ai-meals-9daf1''\<rparr>,
           Auth, VerifyPasswordResetCode (Some ''abc123''),
           Auth, ConfirmPasswordReset (Some ''xyz789'') ''goodpass1'']"
    using parameters_read_per_handler
            [of resolving_firebase "verify_page_loaded verify_link" s None "[]" expired_error
                filled_form]
          h1 h2 h3 c r l i
    by simp
  with h1 h2 h3 show ?thesis unfolding s_def by blast
qed

section \<open>Disabling the form\<close>

lemma list_all_disabled_input_value [simp]:
  "list_all disabled (map (\<lambda>c. c\<lparr>input_value := g c\<rparr>) cs) = list_all disabled cs"
  by (induction cs) auto

lemma list_all_disabled_set [simp]:
  "list_all disabled (map (\<lambda>c. c\<lparr>disabled := True\<rparr>) cs)"
  by (induction cs) auto


























section \<open>The early return on the reset page\<close>

lemma early_return_form:
  assumes "\<not> truthy (map_of (location_search s) ''oobCode'') \<or>
           \<not> truthy (map_of (location_search s) ''apiKey'') \<or>
           map_of (location_search s) ''mode'' \<noteq> Some ''resetPassword''"
  shows "reset_password_form (initializePasswordReset fb s) = reset_password_form s"
    and "calls (initializePasswordReset fb s) = calls s"
    and "location_search (initializePasswordReset fb s) = location_search s"
  using assms
  by (auto simp: initializePasswordReset_def getUrlParameters_def displayMessage_def Let_def
      split: option.splits)

lemma early_return_uncaught:
  assumes "\<not> truthy (map_of (location_search s) ''oobCode'') \<or>
           \<not> truthy (map_of (location_search s) ''apiKey'') \<or>
           map_of (location_search s) ''mode'' \<noteq> Some ''resetPassword''"
  shows "uncaught (initializePasswordReset fb s) = uncaught s"
  using assms
  by (auto simp: initializePasswordReset_def getUrlParameters_def displayMessage_def Let_def
      split: option.splits)

lemma hideMessage_uncaught [simp]: "uncaught (hideMessage s) = uncaught s"
  by (simp add: hideMessage_def split: option.splits)

text \<open>
  What a submission that passes the local validation does: the button is disabled and
  relabelled, \<^verbatim>\<open>firebase.auth()\<close> is called, and \<^verbatim>\<open>confirmPasswordReset\<close> follows when
  \<^verbatim>\<open>firebase.auth()\<close> returned; an error it throws is caught nowhere.
\<close>

lemma submit_valid:
  assumes "reset_password_form s = Some frm"
    and "isValid (validatePasswords (input_value (new_password frm)) (input_value (confirm_password frm)))"
  shows "calls (handleFormSubmit fb s) =
           calls s @
           (case auth fb (calls s) of
              None \<Rightarrow> [Auth, ConfirmPasswordReset (map_of (location_search s) ''oobCode'')
                                 (input_value (new_password frm))]
            | Some e \<Rightarrow> [Auth])"
    and "uncaught (handleFormSubmit fb s) =
           uncaught s @ (case auth fb (calls s) of None \<Rightarrow> [] | Some e \<Rightarrow> [e])"
    and "map_option (\<lambda>f. disabled (submit_button f)) (reset_password_form (handleFormSubmit fb s)) =
           Some True"
  using assms
  by (auto simp: handleFormSubmit_def getUrlParameters_def provider_call_def Let_def
      split: option.splits)

text \<open>
  Claim C9 as stated fails in its last part. After an early return no app has been
  initialized: \<^verbatim>\<open>firebase.initializeApp\<close> comes after the three checks. A submission of a valid
  pair then runs \<^verbatim>\<open>firebase.auth().confirmPasswordReset(...)\<close>, where \<^verbatim>\<open>firebase.auth()\<close>
  throws, so \<^verbatim>\<open>confirmPasswordReset\<close> is not invoked; the error is caught nowhere.
\<close>

theorem early_return_submit_counterexample:
  "\<not> truthy (map_of (location_search (reset_page_loaded no_code_link)) ''oobCode'') \<and>
   isValid (validatePasswords ''goodpass1'' ''goodpass1'') \<and>
   calls (run (Some resolving_firebase)
      [DOMContentLoaded, UserInput ''goodpass1'' ''goodpass1'', SubmitEvent]
      (reset_page_loaded no_code_link)) = [Auth] \<and>
   ConfirmPasswordReset None ''goodpass1'' \<notin> set (calls (run (Some resolving_firebase)
      [DOMContentLoaded, UserInput ''goodpass1'' ''goodpass1'', SubmitEvent]
      (reset_page_loaded no_code_link))) \<and>
   confirm_pending (run (Some resolving_firebase)
      [DOMContentLoaded, UserInput ''goodpass1'' ''goodpass1'', SubmitEvent]
      (reset_page_loaded no_code_link)) = [] \<and>
   uncaught (run (Some resolving_firebase)
      [DOMContentLoaded, UserInput ''goodpass1'' ''goodpass1'', SubmitEvent]
      (reset_page_loaded no_code_link)) = [no_app_error]"
  by code_simp

text \<open>
  Claim C9, amended. On the reset page, when a URL parameter is missing or the mode is wrong,
  the early return shows its message and leaves the form as it was: no control is disabled,
  and the submit listener is attached all the same. When the user then fills the two fields
  with a pair that passes the local validation and submits, the handler disables the submit
  button and calls \<^verbatim>\<open>firebase.auth()\<close>. If that call returns, the handler invokes
  \<^verbatim>\<open>confirmPasswordReset\<close> with the \<^verbatim>\<open>oobCode\<close> of the page location as it is (\<^verbatim>\<open>null\<close> when
  absent) and the new password; if it throws, \<^verbatim>\<open>confirmPasswordReset\<close> is not invoked and
  the error is caught nowhere.
\<close>

theorem early_return_leaves_form_enabled:
  assumes "\<not> truthy (map_of (location_search s) ''oobCode'') \<or>
           \<not> truthy (map_of (location_search s) ''apiKey'') \<or>
           map_of (location_search s) ''mode'' \<noteq> Some ''resetPassword''"
    and "reset_password_form s = Some frm"
    and "\<not> disabled (new_password frm)" and "\<not> disabled (confirm_password frm)"
    and "isValid (validatePasswords newPassword confirmPassword)"
  shows "reset_password_form (step (Some fb) DOMContentLoaded s) = Some frm \<and>
         submit_listener (step (Some fb) DOMContentLoaded s) \<and>
         calls (step (Some fb) DOMContentLoaded s) = calls s \<and>
         calls (run (Some fb) [DOMContentLoaded, UserInput newPassword confirmPassword, SubmitEvent] s) =
           calls s @
           (case auth fb (calls s) of
              None \<Rightarrow> [Auth, ConfirmPasswordReset (map_of (location_search s) ''oobCode'') newPassword]
            | Some e \<Rightarrow> [Auth]) \<and>
         uncaught (run (Some fb) [DOMContentLoaded, UserInput newPassword confirmPassword, SubmitEvent] s) =
           uncaught s @ (case auth fb (calls s) of None \<Rightarrow> [] | Some e \<Rightarrow> [e]) \<and>
         map_option (\<lambda>f. disabled (submit_button f))
           (reset_password_form
              (run (Some fb) [DOMContentLoaded, UserInput newPassword confirmPassword, SubmitEvent] s)) =
           Some True"
proof -
  let ?s1 = "reset_DOMContentLoaded (Some fb) s"
  let ?s2 = "user_input newPassword confirmPassword ?s1"
  let ?frm2 = "frm\<lparr>new_password := (new_password frm)\<lparr>input_value := newPassword\<rparr>,
                   confirm_password := (confirm_password frm)\<lparr>input_value := confirmPassword\<rparr>\<rparr>"
  have i: "reset_password_form (initializePasswordReset fb s) = Some frm"
    using early_return_form(1)[OF assms(1), of fb] assms(2) by simp
  have s1: "?s1 = (initializePasswordReset fb s)\<lparr>submit_listener := True\<rparr>"
    using i by (simp add: reset_DOMContentLoaded_def Let_def)
  have f1: "reset_password_form ?s1 = Some frm"
    unfolding s1 using i by simp
  have l1: "submit_listener ?s1" unfolding s1 by simp
  have c1: "calls ?s1 = calls s"
    unfolding s1 using early_return_form(2)[OF assms(1), of fb] by simp
  have q1: "location_search ?s1 = location_search s"
    unfolding s1 using early_return_form(3)[OF assms(1), of fb] by simp
  have u1: "uncaught ?s1 = uncaught s"
    unfolding s1 using early_return_uncaught[OF assms(1), of fb] by simp
  have f2: "reset_password_form ?s2 = Some ?frm2"
    using f1 assms(3,4) by (simp add: user_input_def)
  have l2: "submit_listener ?s2" using l1 f1 by (simp add: user_input_def)
  have c2: "calls ?s2 = calls s" using c1 f1 by (simp add: user_input_def)
  have q2: "location_search ?s2 = location_search s" using q1 f1 by (simp add: user_input_def)
  have u2: "uncaught ?s2 = uncaught s" using u1 f1 by (simp add: user_input_def)
  have v: "isValid (validatePasswords (input_value (new_password ?frm2))
             (input_value (confirm_password ?frm2)))"
    using assms(5) by simp
  have n: "input_value (new_password ?frm2) = newPassword" by simp
  note sv = submit_valid[OF f2 v, of fb, unfolded c2 q2 u2 n]
  have r: "run (Some fb) [DOMContentLoaded, UserInput newPassword confirmPassword, SubmitEvent] s =
             handleFormSubmit fb ?s2"
    using l2 by simp
  show ?thesis
    unfolding r using f1 l1 c1 sv by simp
qed

theorem early_return_leaves_form_enabled_witness:
  "(\<not> truthy (map_of (location_search (reset_page_loaded no_code_link)) ''oobCode'')) \<and>
   reset_password_form (reset_page_loaded no_code_link) =
     Some \<lparr>new_password = blank_control, confirm_password = blank_control,
           submit_button = blank_control\<lparr>textContent := ''Reset Password''\<rparr>,
           other_controls = []\<rparr> \<and>
   \<not> disabled blank_control \<and>
   isValid (validatePasswords ''goodpass1'' ''goodpass1'') \<and>
   auth resolving_firebase (calls (reset_page_loaded no_code_link)) = Some no_app_error \<and>
   reset_password_form (step (Some resolving_firebase) DOMContentLoaded (reset_page_loaded no_code_link)) =
     reset_password_form (reset_page_loaded no_code_link) \<and>
   submit_listener (step (Some resolving_firebase) DOMContentLoaded (reset_page_loaded no_code_link)) \<and>
   calls (run (Some resolving_firebase)
      [DOMContentLoaded, UserInput ''goodpass1'' ''goodpass1'', SubmitEvent]
      (reset_page_loaded no_code_link)) = [Auth] \<and>
   uncaught (run (Some resolving_firebase)
      [DOMContentLoaded, UserInput ''goodpass1'' ''goodpass1'', SubmitEvent]
      (reset_page_loaded no_code_link)) = [no_app_error]"
proof -
  let ?frm = "\<lparr>new_password = blank_control, confirm_password = blank_control,
               submit_button = blank_control\<lparr>textContent := ''Reset Password''\<rparr>,
               other_controls = []\<rparr>"
  let ?evs = "[DOMContentLoaded, UserInput ''goodpass1'' ''goodpass1'', SubmitEvent]"
  have h1: "\<not> truthy (map_of (location_search (reset_page_loaded no_code_link)) ''oobCode'') \<or>
            \<not> truthy (map_of (location_search (reset_page_loaded no_code_link)) ''apiKey'') \<or>
            map_of (location_search (reset_page_loaded no_code_link)) ''mode'' \<noteq> Some ''resetPassword''"
    and h1': "\<not> truthy (map_of (location_search (reset_page_loaded no_code_link)) ''oobCode'')"
    by (simp_all add: reset_page_loaded_def no_code_link_def truthy_def)
  have h2: "reset_password_form (reset_page_loaded no_code_link) = Some ?frm"
    by (simp add: reset_page_loaded_def)
  have h3: "\<not> disabled (new_password ?frm)" and h4: "\<not> disabled (confirm_password ?frm)"
    and h3': "\<not> disabled blank_control"
    by (simp_all add: blank_control_def)
  have h5: "isValid (validatePasswords ''goodpass1'' ''goodpass1'')" by code_simp
  have c: "calls (reset_page_loaded no_code_link) = []"
    and u: "uncaught (reset_page_loaded no_code_link) = []"
    by (simp_all add: reset_page_loaded_def)
  have a0: "auth resolving_firebase [] = Some no_app_error"
    by (simp add: resolving_firebase_def)
  have a: "auth resolving_firebase (calls (reset_page_loaded no_code_link)) = Some no_app_error"
    unfolding c by (rule a0)
  from early_return_leaves_form_enabled[OF h1 h2 h3 h4 h5, of resolving_firebase]
  have t1: "reset_password_form (step (Some resolving_firebase) DOMContentLoaded (reset_page_loaded no_code_link))
              = Some ?frm"
    and t2: "submit_listener (step (Some resolving_firebase) DOMContentLoaded (reset_page_loaded no_code_link))"
    and t3: "calls (run (Some resolving_firebase) ?evs (reset_page_loaded no_code_link)) =
               calls (reset_page_loaded no_code_link) @
               (case auth resolving_firebase (calls (reset_page_loaded no_code_link)) of
                  None \<Rightarrow> [Auth, ConfirmPasswordReset
                             (map_of (location_search (reset_page_loaded no_code_link)) ''oobCode'')
                             ''goodpass1'']
                | Some e \<Rightarrow> [Auth])"
    and t4: "uncaught (run (Some resolving_firebase) ?evs (reset_page_loaded no_code_link)) =
               uncaught (reset_page_loaded no_code_link) @
               (case auth resolving_firebase (calls (reset_page_loaded no_code_link)) of
                  None \<Rightarrow> [] | Some e \<Rightarrow> [e])"
    by blast+
  have t3': "calls (run (Some resolving_firebase) ?evs (reset_page_loaded no_code_link)) = [Auth]"
    unfolding t3 c a0 by simp
  have t4': "uncaught (run (Some resolving_firebase) ?evs (reset_page_loaded no_code_link)) = [no_app_error]"
    unfolding t4 c u a0 by simp
  have t1': "reset_password_form (step (Some resolving_firebase) DOMContentLoaded (reset_page_loaded no_code_link))
               = reset_password_form (reset_page_loaded no_code_link)"
    unfolding t1 h2 by (rule refl)
  from h1' h2 h3' h5 a t1' t2 t3' t4' show ?thesis by blast
qed

end
